theory Spec2Isabelle
  imports Complex_Main "HOL-Library.Char_ord" "HOL-Library.List_Lexorder"
begin

section \<open>Python and numpy values\<close>

text \<open>
  The two modules work on numpy arrays. A float array holds finite numbers or the
  not-a-number marker; an object array of labels holds strings or a null object
  (\<open>None\<close> or \<open>np.nan\<close>), the entries for which \<open>pd.isnull\<close> is true. Strings are
  compared as Python compares them: lexicographically by character code, which is the
  order of \<open>char list\<close> here.
\<close>

datatype float = NaN | Val real

datatype label = Null | Str string

text \<open>
  The exceptions raised by the code, with what their messages name. \<open>AmbiguousTruth\<close>
  is numpy's \<open>ValueError\<close> for the truth value of an array with more than one element.
\<close>

datatype message =
    NullMarker
  | MarkerInArray
  | NewLabels "string list"
  | NewCodes "real list"
  | AmbiguousTruth
  | FunctionCountMismatch
  | UnknownMechanism string string
  | CannotBroadcast

datatype exn =
    NotFittedError
  | ValueError message
  | TypeError
  | AttributeError
  | IndexError
  | NameError string

fun isnull :: "label \<Rightarrow> bool" where
  "isnull Null = True"
| "isnull (Str s) = False"

fun isnan :: "float \<Rightarrow> bool" where
  "isnan NaN = True"
| "isnan (Val v) = False"

text \<open>\<open>a[mask] = v\<close>: every entry selected by the boolean mask is overwritten.\<close>

definition assign_masked :: "'a list \<Rightarrow> bool list \<Rightarrow> 'a \<Rightarrow> 'a list" where
  "assign_masked a msk v = map (\<lambda>(x, b). if b then v else x) (zip a msk)"

text \<open>\<open>a[mask]\<close>: the entries selected by the boolean mask, as a new array.\<close>

definition boolean_index :: "'a list \<Rightarrow> bool list \<Rightarrow> 'a list" where
  "boolean_index a msk = map fst (filter snd (zip a msk))"

definition mask_or :: "bool list \<Rightarrow> bool list \<Rightarrow> bool list" where
  "mask_or m1 m2 = map (\<lambda>(a, b). a \<or> b) (zip m1 m2)"

definition mask_not :: "bool list \<Rightarrow> bool list" where
  "mask_not m = map Not m"

text \<open>\<open>np.unique\<close>, \<open>np.isin\<close>, \<open>np.intersect1d\<close> and \<open>np.setdiff1d\<close>: the sorted
  distinct elements, elementwise membership, and the sorted distinct elements of the
  first array that are (are not) in the second.\<close>

definition np_unique :: "'a::linorder list \<Rightarrow> 'a list" where
  "np_unique ar = sort (remdups ar)"

definition isin :: "'a list \<Rightarrow> 'a list \<Rightarrow> bool list" where
  "isin element test_elements = map (\<lambda>x. x \<in> set test_elements) element"

definition intersect1d :: "'a::linorder list \<Rightarrow> 'a list \<Rightarrow> 'a list" where
  "intersect1d ar1 ar2 = filter (\<lambda>x. x \<in> set (np_unique ar2)) (np_unique ar1)"

definition setdiff1d :: "'a::linorder list \<Rightarrow> 'a list \<Rightarrow> 'a list" where
  "setdiff1d ar1 ar2 = filter (\<lambda>x. x \<notin> set (np_unique ar2)) (np_unique ar1)"

definition arange :: "nat \<Rightarrow> real list" where
  "arange n = map real [0..<n]"

text \<open>
  \<open>np.searchsorted(a, v)\<close> (side \<open>left\<close>) is numpy's binary search. It never checks
  that \<open>a\<close> is sorted, so on an unsorted array its answer is whatever the probes give.
  The model follows numpy's loop:
  \<^verbatim>\<open>
  min_idx = 0; max_idx = arr_len; last_key = keys[0]
  for key in keys:
      if last_key < key: max_idx = arr_len
      else: min_idx = 0; max_idx = max_idx + 1 if max_idx < arr_len else arr_len
      last_key = key
      while min_idx < max_idx:
          mid_idx = min_idx + ((max_idx - min_idx) >> 1)
          if arr[mid_idx] < key: min_idx = mid_idx + 1
          else: max_idx = mid_idx
      ret.append(min_idx)
  \<close>
  The bounds left by one key are the starting bounds of the next. The probe index is
  below \<open>max_idx\<close>, which never exceeds the length of the array.
\<close>

function binsearch_loop :: "'a::linorder list \<Rightarrow> 'a \<Rightarrow> nat \<Rightarrow> nat \<Rightarrow> nat \<times> nat" where
  "binsearch_loop arr key min_idx max_idx =
     (if min_idx < max_idx
      then (if arr ! (min_idx + (max_idx - min_idx) div 2) < key
            then binsearch_loop arr key (min_idx + (max_idx - min_idx) div 2 + 1) max_idx
            else binsearch_loop arr key min_idx (min_idx + (max_idx - min_idx) div 2))
      else (min_idx, max_idx))"
  by pat_completeness auto
termination
  by (relation "measure (\<lambda>(arr, key, lo, hi). hi - lo)") auto

fun binsearch_keys :: "'a::linorder list \<Rightarrow> nat \<Rightarrow> nat \<Rightarrow> 'a \<Rightarrow> 'a list \<Rightarrow> nat list" where
  "binsearch_keys arr min_idx max_idx last_key [] = []"
| "binsearch_keys arr min_idx max_idx last_key (key # keys) =
     (case binsearch_loop arr key
             (if last_key < key then min_idx else 0)
             (if last_key < key then length arr
              else if max_idx < length arr then max_idx + 1 else length arr)
      of (lo, hi) \<Rightarrow> lo # binsearch_keys arr lo hi key keys)"

definition searchsorted :: "'a::linorder list \<Rightarrow> 'a list \<Rightarrow> nat list" where
  "searchsorted a v = (case v of [] \<Rightarrow> [] | k # ks \<Rightarrow> binsearch_keys a 0 (length a) k v)"

text \<open>
  The truth value of an array, as \<open>if diff:\<close> takes it: an empty array is false, an
  array of one element has that element's truth value, and a longer array raises.
\<close>

fun truth_value :: "real list \<Rightarrow> exn + bool" where
  "truth_value [] = Inr False"
| "truth_value [d] = Inr (d \<noteq> 0)"
| "truth_value (d # e # ds) = Inl (ValueError AmbiguousTruth)"

text \<open>\<open>np.asarray(y, dtype=int)\<close> truncates each finite float towards zero. A NaN has
  no integer value: its cast is no valid index.\<close>

definition finite_values :: "float list \<Rightarrow> real list" where
  "finite_values a = concat (map (\<lambda>c. case c of NaN \<Rightarrow> [] | Val v \<Rightarrow> [v]) a)"

fun as_int :: "float \<Rightarrow> int option" where
  "as_int NaN = None"
| "as_int (Val v) = Some (if 0 \<le> v then \<lfloor>v\<rfloor> else \<lceil>v\<rceil>)"

text \<open>\<open>a[idx]\<close> with an integer array: a negative index counts from the end, an index
  outside \<open>[-len, len)\<close> raises \<open>IndexError\<close>.\<close>

definition fancy_index :: "'a list \<Rightarrow> int list \<Rightarrow> exn + 'a list" where
  "fancy_index a idx =
     (if list_all (\<lambda>i. - int (length a) \<le> i \<and> i < int (length a)) idx
      then Inr (map (\<lambda>i. a ! nat (if i < 0 then i + int (length a) else i)) idx)
      else Inl IndexError)"

section \<open>The label encoder (\<open>nan_label_encoder.py\<close>)\<close>

text \<open>
  The object's attributes. The attribute \<open>classes_\<close> is the field \<open>classes_fitted\<close>
  (a field name cannot end in an underscore); it does not exist until \<open>fit\<close> sets it:
  \<open>None\<close> here. \<open>labels\<close> is the constructor's argument (\<open>None\<close> or a list) until \<open>fit\<close>
  overwrites it with the fitted labels.
\<close>

record NaNLabelEncoder =
  missing_value_marker :: label
  labels :: "string list option"
  treat_unknown_as_missing :: bool
  classes_fitted :: "string list option"

definition init :: "label \<Rightarrow> string list option \<Rightarrow> bool \<Rightarrow> NaNLabelEncoder" where
  "init marker ls unknown_as_missing =
     \<lparr>missing_value_marker = marker, labels = ls,
      treat_unknown_as_missing = unknown_as_missing, classes_fitted = None\<rparr>"

definition default_marker :: label where
  "default_marker = Str ''---NaN---''"

definition strings_of :: "label list \<Rightarrow> string list" where
  "strings_of y = concat (map (\<lambda>l. case l of Null \<Rightarrow> [] | Str s \<Rightarrow> [s]) y)"

definition fit :: "NaNLabelEncoder \<Rightarrow> label list \<Rightarrow> exn + NaNLabelEncoder" where
  "fit self y =
     (case missing_value_marker self of
        Null \<Rightarrow> Inl (ValueError NullMarker)
      | Str marker \<Rightarrow>
          if Str marker \<in> set y then Inl (ValueError MarkerInArray)
          else
            let m_nan = map isnull y;
                observed = np_unique (strings_of (boolean_index y (mask_not m_nan)));
                cls = (case labels self of
                         None \<Rightarrow> observed
                       | Some ls \<Rightarrow> np_unique (observed @ ls))
            in Inr (self\<lparr>labels := Some cls, classes_fitted := Some (cls @ [marker])\<rparr>))"

definition get_num_classes :: "NaNLabelEncoder \<Rightarrow> exn + nat" where
  "get_num_classes self =
     (case labels self of None \<Rightarrow> Inl TypeError | Some ls \<Rightarrow> Inr (length ls))"

text \<open>
  \<open>transform\<close> copies its argument into an object array before writing the marker
  into it, so the caller's array is not changed. Sorting an object array that still
  holds a null object next to strings is a \<open>TypeError\<close>; that takes a null marker,
  which \<open>fit\<close> refuses.
\<close>

definition all_strings :: "label list \<Rightarrow> string list option" where
  "all_strings y = (if list_all (\<lambda>l. \<not> isnull l) y then Some (strings_of y) else None)"

definition transform :: "NaNLabelEncoder \<Rightarrow> label list \<Rightarrow> exn + float list" where
  "transform self y =
     (case classes_fitted self of
        None \<Rightarrow> Inl NotFittedError
      | Some cls \<Rightarrow>
          let m_nan = map isnull y;
              m_nan = (if treat_unknown_as_missing self
                       then mask_or m_nan (mask_not (isin y (map Str cls)))
                       else m_nan);
              y = assign_masked y m_nan (missing_value_marker self)
          in (case all_strings y of
                None \<Rightarrow> Inl TypeError
              | Some ys \<Rightarrow>
                  let classes = np_unique ys
                  in if length (intersect1d classes cls) < length classes
                     then Inl (ValueError (NewLabels (setdiff1d classes cls)))
                     else Inr (assign_masked
                                 (map (\<lambda>i. Val (real i)) (searchsorted cls ys)) m_nan NaN)))"

text \<open>
  \<open>inverse_transform\<close> writes into the array it is given (\<open>y[m_nan] = ...\<close>), so the
  model returns that array as the call leaves it, next to the result or the exception.
\<close>

definition inverse_transform ::
  "NaNLabelEncoder \<Rightarrow> float list \<Rightarrow> float list \<times> (exn + string list)" where
  "inverse_transform self y =
     (case classes_fitted self of
        None \<Rightarrow> (y, Inl NotFittedError)
      | Some cls \<Rightarrow>
          let m_nan = map isnan y;
              y = assign_masked y m_nan (Val (real_of_int (int (length cls) - 1)));
              diff = setdiff1d (finite_values (boolean_index y (mask_not m_nan)))
                       (arange (length cls))
          in (y, case truth_value diff of
                   Inl e \<Rightarrow> Inl e
                 | Inr True \<Rightarrow> Inl (ValueError (NewCodes diff))
                 | Inr False \<Rightarrow>
                     (case those (map as_int y) of
                        None \<Rightarrow> Inl IndexError
                      | Some idx \<Rightarrow> fancy_index cls idx)))"

section \<open>The missing-data utilities (\<open>missing_data_utils.py\<close>)\<close>

text \<open>
  A data matrix is a two-dimensional float array: its rows, and its number of columns
  (\<open>X.shape[1]\<close>, which a matrix without rows still has). Arrays are objects on the
  heap and the functions take and return references, so the state of the program is
  written out: the arrays allocated so far, by address, and the seed last given to
  numpy's global generator with \<open>np.random.seed\<close>.
\<close>

record matrix =
  ncols :: nat
  rows :: "float list list"

record world =
  arrays :: "matrix list"
  vectors :: "int list list"
  np_random :: int

definition alloc :: "matrix \<Rightarrow> world \<Rightarrow> nat \<times> world" where
  "alloc m w = (length (arrays w), w\<lparr>arrays := arrays w @ [m]\<rparr>)"

definition alloc_vector :: "int list \<Rightarrow> world \<Rightarrow> nat \<times> world" where
  "alloc_vector v w = (length (vectors w), w\<lparr>vectors := vectors w @ [v]\<rparr>)"

text \<open>
  A caller's callable receives the values of a column or of a row and returns an array
  or raises. It may have effects of its own, on a state \<open>'u\<close> of the caller's that the
  utilities never look at; it does not write through the view it is given, as the
  docstrings ask (\<open>return a copy\<close>).
\<close>

type_synonym 'u callable = "float list \<Rightarrow> 'u \<Rightarrow> (exn + float list) \<times> 'u"

definition column :: "matrix \<Rightarrow> nat \<Rightarrow> float list" where
  "column m i = map (\<lambda>r. r ! i) (rows m)"

text \<open>\<open>X_ret[:,i] = v\<close> and \<open>X_ret[i] = v\<close>: \<open>v\<close> has the length of the column (of the
  row), or its single element is broadcast; any other length raises.\<close>

definition set_column :: "matrix \<Rightarrow> nat \<Rightarrow> float list \<Rightarrow> exn + matrix" where
  "set_column m i v =
     (if length v = length (rows m)
      then Inr (m\<lparr>rows := map (\<lambda>(r, x). r[i := x]) (zip (rows m) v)\<rparr>)
      else if length v = 1
      then Inr (m\<lparr>rows := map (\<lambda>r. r[i := hd v]) (rows m)\<rparr>)
      else Inl (ValueError CannotBroadcast))"

definition set_row :: "matrix \<Rightarrow> nat \<Rightarrow> float list \<Rightarrow> exn + matrix" where
  "set_row m i v =
     (if length v = ncols m
      then Inr (m\<lparr>rows := (rows m)[i := v]\<rparr>)
      else if length v = 1
      then Inr (m\<lparr>rows := (rows m)[i := replicate (ncols m) (hd v)]\<rparr>)
      else Inl (ValueError CannotBroadcast))"

definition full_like :: "matrix \<Rightarrow> float \<Rightarrow> matrix" where
  "full_like m v = m\<lparr>rows := map (\<lambda>r. map (\<lambda>x. v) r) (rows m)\<rparr>"

subsection \<open>MCAR\<close>

text \<open>
  Modelled from the spec: \<open>math_utils.mask_random_values\<close>, which
  \<open>get_mcar_incomplete_data\<close> calls, is not among the sources. The spec has every cell
  marked missing with probability \<open>p\<close> by a generator initialised from the seed, no
  state held globally, and the result a new matrix next to the boolean mask.
  \<open>uniform seed k\<close> is the \<open>k\<close>-th draw in \<open>[0, 1)\<close> of the generator seeded with
  \<open>seed\<close>; the cell in row \<open>i\<close> and column \<open>j\<close> takes draw \<open>i * ncols + j\<close>.
\<close>

definition mask_random_values ::
  "(int \<Rightarrow> nat \<Rightarrow> real) \<Rightarrow> matrix \<Rightarrow> real \<Rightarrow> int \<Rightarrow> matrix \<times> bool list list" where
  "mask_random_values uniform X likelihood random_state =
     (let msk = map (\<lambda>i. map (\<lambda>j. uniform random_state (i * ncols X + j) < likelihood)
                           [0..<ncols X])
                    [0..<length (rows X)]
      in (X\<lparr>rows := map (\<lambda>(r, mr). assign_masked r mr NaN) (zip (rows X) msk)\<rparr>, msk))"

definition get_mcar_incomplete_data ::
  "(int \<Rightarrow> nat \<Rightarrow> real) \<Rightarrow> nat \<Rightarrow> real \<Rightarrow> int \<Rightarrow> world \<Rightarrow> nat \<times> world" where
  "get_mcar_incomplete_data uniform X missing_likelihood random_state w =
     (case mask_random_values uniform (arrays w ! X) missing_likelihood random_state of
        (X_incomplete, missing_mask) \<Rightarrow> alloc X_incomplete w)"

subsection \<open>NMAR\<close>

text \<open>The loop over the columns: \<open>cols\<close> are the indices still to do.\<close>

fun nmar_columns ::
  "'u callable option list \<Rightarrow> nat \<Rightarrow> nat \<Rightarrow> nat list \<Rightarrow> world \<times> 'u
     \<Rightarrow> exn option \<times> world \<times> 'u" where
  "nmar_columns fs X X_ret [] (w, u) = (None, w, u)"
| "nmar_columns fs X X_ret (i # cols) (w, u) =
     (case fs ! i of
        None \<Rightarrow> nmar_columns fs X X_ret cols (w, u)
      | Some f \<Rightarrow>
          (case f (column (arrays w ! X) i) u of
             (Inl e, u') \<Rightarrow> (Some e, w, u')
           | (Inr v, u') \<Rightarrow>
               (case set_column (arrays w ! X_ret) i v of
                  Inl e \<Rightarrow> (Some e, w, u')
                | Inr m \<Rightarrow>
                    nmar_columns fs X X_ret cols
                      (w\<lparr>arrays := (arrays w)[X_ret := m]\<rparr>, u'))))"

definition get_nmar_incomplete_data ::
  "nat \<Rightarrow> 'u callable option list option \<Rightarrow> int \<Rightarrow> world \<times> 'u
     \<Rightarrow> (exn + nat) \<times> world \<times> 'u" where
  "get_nmar_incomplete_data X missing_likelihood random_state s =
     (case s of (w0, u) \<Rightarrow>
        let w = w0\<lparr>np_random := random_state\<rparr>
        in (case missing_likelihood of
              None \<Rightarrow> (Inl TypeError, w, u)
            | Some fs \<Rightarrow>
                if length fs \<noteq> ncols (arrays w ! X)
                then (Inl (ValueError FunctionCountMismatch), w, u)
                else (case alloc (arrays w ! X) w of
                        (X_ret, w1) \<Rightarrow>
                          (case nmar_columns fs X X_ret [0..<ncols (arrays w ! X)] (w1, u) of
                             (Some e, w2, u') \<Rightarrow> (Inl e, w2, u')
                           | (None, w2, u') \<Rightarrow> (Inr X_ret, w2, u')))))"

fun greater :: "float \<Rightarrow> real \<Rightarrow> bool" where
  "greater NaN t = False"
| "greater (Val v) t = (t < v)"

definition remove_large_values :: "float list \<Rightarrow> real \<Rightarrow> float list \<times> bool list" where
  "remove_large_values X threshold =
     (let m = map (\<lambda>x. greater x threshold) X in (assign_masked X m NaN, m))"

subsection \<open>MAR\<close>

fun mar_rows ::
  "'u callable option \<Rightarrow> nat \<Rightarrow> nat \<Rightarrow> nat list \<Rightarrow> world \<times> 'u
     \<Rightarrow> exn option \<times> world \<times> 'u" where
  "mar_rows f X X_ret [] (w, u) = (None, w, u)"
| "mar_rows f X X_ret (i # rs) (w, u) =
     (case f of
        None \<Rightarrow> (Some TypeError, w, u)
      | Some g \<Rightarrow>
          (case g (rows (arrays w ! X) ! i) u of
             (Inl e, u') \<Rightarrow> (Some e, w, u')
           | (Inr v, u') \<Rightarrow>
               (case set_row (arrays w ! X_ret) i v of
                  Inl e \<Rightarrow> (Some e, w, u')
                | Inr m \<Rightarrow>
                    mar_rows f X X_ret rs (w\<lparr>arrays := (arrays w)[X_ret := m]\<rparr>, u'))))"

definition get_mar_incomplete_data ::
  "nat \<Rightarrow> 'u callable option \<Rightarrow> int \<Rightarrow> world \<times> 'u \<Rightarrow> (exn + nat) \<times> world \<times> 'u" where
  "get_mar_incomplete_data X missing_likelihood random_state s =
     (case s of (w0, u) \<Rightarrow>
        let w = w0\<lparr>np_random := random_state\<rparr>
        in (case alloc (full_like (arrays w ! X) NaN) w of
              (X_ret, w1) \<Rightarrow>
                (case mar_rows missing_likelihood X X_ret
                        [0..<length (rows (arrays w ! X))] (w1, u) of
                   (Some e, w2, u') \<Rightarrow> (Inl e, w2, u')
                 | (None, w2, u') \<Rightarrow> (Inr X_ret, w2, u'))))"

subsection \<open>The dispatch\<close>

text \<open>
  \<open>get_incomplete_data\<close> passes its \<open>missing_likelihood\<close> on to whichever injector the
  mechanism selects: a probability, a list of column callables or a row callable (or
  \<open>None\<close>). An argument of another kind than the selected injector works on is a
  \<open>TypeError\<close> there.
\<close>

datatype 'u likelihood =
    Probability real
  | ColumnFunctions "'u callable option list"
  | RowFunction "'u callable"
  | NoLikelihood

text \<open>
  The first statement of the function is \<open>mechanism = mechanims.lower()\<close>. Python looks
  the name \<open>mechanims\<close> up among the function's local names, then the module's global
  names, then the builtins (none of which is called \<open>mechanims\<close>); a name bound nowhere
  is a \<open>NameError\<close>. Each name is listed with its value when that is a string, the only
  values on which \<open>.lower()\<close> does not raise.
\<close>

definition local_names :: "string \<Rightarrow> (string \<times> string option) list" where
  "local_names mechanism =
     [(''X'', None), (''mechanism'', Some mechanism), (''missing_likelihood'', None),
      (''random_state'', None)]"

definition module_names :: "(string \<times> string option) list" where
  "module_names =
     [(''collections'', None), (''np'', None), (''sklearn'', None), (''math_utils'', None),
      (''more_itertools'', None), (''get_mcar_incomplete_data'', None),
      (''get_nmar_incomplete_data'', None), (''remove_large_values'', None),
      (''get_mar_incomplete_data'', None), (''remove_y_when_z_is_large'', None),
      (''get_incomplete_data'', None),
      (''_incomplete_dataset_fields'',
         Some (''X_train_complete X_train_incomplete X_test_complete ''
               @ ''X_test_incomplete y_train y_test'')),
      (''IncompleteDataset'', None), (''get_incomplete_data_splits'', None),
      (''_training_results_fields'',
         Some ''model_fit_c model_fit_i y_pred_cc y_pred_ic y_pred_ci y_pred_ii y_test''),
      (''TrainingResults'', None), (''train_on_incomplete_data'', None)]"

definition lower :: "string \<Rightarrow> string" where
  "lower s = map (\<lambda>c. if CHR ''A'' \<le> c \<and> c \<le> CHR ''Z''
                       then char_of (of_char c + (32::nat)) else c) s"

definition get_incomplete_data ::
  "(int \<Rightarrow> nat \<Rightarrow> real) \<Rightarrow> nat \<Rightarrow> string \<Rightarrow> 'u likelihood \<Rightarrow> int \<Rightarrow> world \<times> 'u
     \<Rightarrow> (exn + nat) \<times> world \<times> 'u" where
  "get_incomplete_data uniform X mechanism missing_likelihood random_state s =
     (case s of (w, u) \<Rightarrow>
        (case map_of (local_names mechanism @ module_names) ''mechanims'' of
           None \<Rightarrow> (Inl (NameError ''mechanims''), w, u)
         | Some None \<Rightarrow> (Inl AttributeError, w, u)
         | Some (Some name) \<Rightarrow>
             let mechanism = lower name
             in if mechanism = ''mcar''
                then (case missing_likelihood of
                        Probability p \<Rightarrow>
                          (case get_mcar_incomplete_data uniform X p random_state w of
                             (X_incomplete, w') \<Rightarrow> (Inr X_incomplete, w', u))
                      | _ \<Rightarrow> (Inl TypeError, w, u))
                else if mechanism = ''mar''
                then (case missing_likelihood of
                        RowFunction f \<Rightarrow>
                          get_mar_incomplete_data X (Some f) random_state (w, u)
                      | NoLikelihood \<Rightarrow>
                          get_mar_incomplete_data X None random_state (w, u)
                      | _ \<Rightarrow> (Inl TypeError, w\<lparr>np_random := random_state\<rparr>, u))
                else if mechanism = ''nmar''
                then (case missing_likelihood of
                        ColumnFunctions fs \<Rightarrow>
                          get_nmar_incomplete_data X (Some fs) random_state (w, u)
                      | _ \<Rightarrow> get_nmar_incomplete_data X None random_state (w, u))
                else (Inl (ValueError (UnknownMechanism mechanism ''mcar mar nmar'')), w, u)))"

subsection \<open>The splitter\<close>

text \<open>
  \<open>StratifiedKFold(num_folds, random_state=random_state).split(X_complete, y)\<close> is
  sklearn's: a parameter here, giving the (train, test) index arrays of every fold, or
  raising. \<open>more_itertools.nth\<close> gives \<open>None\<close> past the last fold, and unpacking \<open>None\<close>
  is a \<open>TypeError\<close>. Indexing with an index array copies the selected rows into a new
  array and raises \<open>IndexError\<close> on an index that is not a row.
\<close>

type_synonym splitter = "nat \<Rightarrow> int \<Rightarrow> matrix \<Rightarrow> int list \<Rightarrow> exn + (nat list \<times> nat list) list"

record IncompleteDataset =
  X_train_complete :: nat
  X_train_incomplete :: nat
  X_test_complete :: nat
  X_test_incomplete :: nat
  y_train :: nat
  y_test :: nat

definition nth_or_none :: "'a list \<Rightarrow> nat \<Rightarrow> 'a option" where
  "nth_or_none xs n = (if n < length xs then Some (xs ! n) else None)"

definition select_rows :: "'a list \<Rightarrow> nat list \<Rightarrow> exn + 'a list" where
  "select_rows a idx =
     (if list_all (\<lambda>i. i < length a) idx then Inr (map (\<lambda>i. a ! i) idx) else Inl IndexError)"

definition index_matrix :: "nat \<Rightarrow> nat list \<Rightarrow> world \<Rightarrow> (exn + nat) \<times> world" where
  "index_matrix X idx w =
     (case select_rows (rows (arrays w ! X)) idx of
        Inl e \<Rightarrow> (Inl e, w)
      | Inr rs \<Rightarrow> (case alloc ((arrays w ! X)\<lparr>rows := rs\<rparr>) w of (a, w') \<Rightarrow> (Inr a, w')))"

definition index_vector :: "nat \<Rightarrow> nat list \<Rightarrow> world \<Rightarrow> (exn + nat) \<times> world" where
  "index_vector y idx w =
     (case select_rows (vectors w ! y) idx of
        Inl e \<Rightarrow> (Inl e, w)
      | Inr v \<Rightarrow> (case alloc_vector v w of (a, w') \<Rightarrow> (Inr a, w')))"

text \<open>Running one statement after another: an exception ends the function.\<close>

definition bind ::
  "(world \<Rightarrow> (exn + 'a) \<times> world) \<Rightarrow> ('a \<Rightarrow> world \<Rightarrow> (exn + 'b) \<times> world)
     \<Rightarrow> world \<Rightarrow> (exn + 'b) \<times> world" where
  "bind m k w = (case m w of (Inl e, w') \<Rightarrow> (Inl e, w') | (Inr a, w') \<Rightarrow> k a w')"

definition get_incomplete_data_splits ::
  "splitter \<Rightarrow> nat \<Rightarrow> nat \<Rightarrow> nat \<Rightarrow> nat \<Rightarrow> nat \<Rightarrow> int \<Rightarrow> world
     \<Rightarrow> (exn + IncompleteDataset) \<times> world" where
  "get_incomplete_data_splits cv_split X_complete X_incomplete y fold_n num_folds random_state =
     bind (\<lambda>w. (cv_split num_folds random_state (arrays w ! X_complete) (vectors w ! y), w))
       (\<lambda>splits.
     bind (\<lambda>w. (case nth_or_none splits fold_n of None \<Rightarrow> Inl TypeError | Some p \<Rightarrow> Inr p, w))
       (\<lambda>(train, test).
     bind (index_matrix X_complete train) (\<lambda>X_train_complete.
     bind (index_vector y train) (\<lambda>y_train.
     bind (index_matrix X_complete test) (\<lambda>X_test_complete.
     bind (index_vector y test) (\<lambda>y_test.
     bind (index_matrix X_incomplete train) (\<lambda>X_train_incomplete.
     bind (index_matrix X_incomplete test) (\<lambda>X_test_incomplete.
       (\<lambda>w. (Inr \<lparr>X_train_complete = X_train_complete,
                    X_train_incomplete = X_train_incomplete,
                    X_test_complete = X_test_complete,
                    X_test_incomplete = X_test_incomplete,
                    y_train = y_train, y_test = y_test\<rparr>, w))))))))))"

section \<open>Ranks and codes\<close>

text \<open>
  The rank of a value in a class list is the number of classes below it: its position
  when the list is in ascending order and holds it. \<open>code_of\<close> is the code of a label
  by rank, a missing label being NaN; \<open>index_of\<close> is the index that
  \<open>inverse_transform\<close> reads for it; \<open>label_or m\<close> puts the string \<open>m\<close> in the
  place of a missing label.
\<close>

definition rank_of :: "'a::linorder list \<Rightarrow> 'a \<Rightarrow> nat" where
  "rank_of arr k = length (filter (\<lambda>x. x < k) arr)"

fun label_or :: "string \<Rightarrow> label \<Rightarrow> string" where
  "label_or m Null = m"
| "label_or m (Str s) = s"

fun code_of :: "string list \<Rightarrow> label \<Rightarrow> float" where
  "code_of cls Null = NaN"
| "code_of cls (Str s) = Val (real (rank_of cls s))"

fun index_of :: "string list \<Rightarrow> label \<Rightarrow> int" where
  "index_of cls Null = int (length cls) - 1"
| "index_of cls (Str s) = int (rank_of cls s)"

section \<open>Frames\<close>

text \<open>
  \<open>unchanged w w'\<close>: every array and vector of \<open>w\<close> is still there in \<open>w'\<close>, at its
  address and with its contents. \<open>fresh w w' a\<close>: the array at address \<open>a\<close> of \<open>w'\<close>
  was allocated after \<open>w\<close>.
\<close>

definition unchanged :: "world \<Rightarrow> world \<Rightarrow> bool" where
  "unchanged w w' =
     (take (length (arrays w)) (arrays w') = arrays w
      \<and> take (length (vectors w)) (vectors w') = vectors w)"

definition fresh :: "world \<Rightarrow> world \<Rightarrow> nat \<Rightarrow> bool" where
  "fresh w w' a = (length (arrays w) \<le> a \<and> a < length (arrays w'))"

definition fresh_vector :: "world \<Rightarrow> world \<Rightarrow> nat \<Rightarrow> bool" where
  "fresh_vector w w' a = (length (vectors w) \<le> a \<and> a < length (vectors w'))"

section \<open>Concrete scenarios\<close>

text \<open>The encoders that \<open>fit\<close> gives on \<open>["a", "b", None, "a"]\<close> (unknown labels
  treated as missing) and on \<open>["a"]\<close>, both with the default marker.\<close>

definition encoder_ab :: NaNLabelEncoder where
  "encoder_ab =
     \<lparr>missing_value_marker = Str ''---NaN---'', labels = Some [''a'', ''b''],
      treat_unknown_as_missing = True,
      classes_fitted = Some [''a'', ''b'', ''---NaN---'']\<rparr>"

definition encoder_a :: NaNLabelEncoder where
  "encoder_a =
     \<lparr>missing_value_marker = Str ''---NaN---'', labels = Some [''a''],
      treat_unknown_as_missing = False,
      classes_fitted = Some [''a'', ''---NaN---'']\<rparr>"

text \<open>
  A world with a complete matrix of two observations at address 0, its incomplete
  version at address 1 and the labels at vector address 0; a callable that appends its
  number to the caller's log; the threshold callable of the module's docstring; a
  generator; a splitter of two folds; and a matrix of 100 rows and 4 columns.
\<close>

definition X_small :: matrix where
  "X_small = \<lparr>ncols = 2, rows = [[Val 1, Val 5], [Val 3, Val 2]]\<rparr>"

definition X_small_incomplete :: matrix where
  "X_small_incomplete = \<lparr>ncols = 2, rows = [[Val 1, NaN], [Val 3, Val 2]]\<rparr>"

definition world_small :: world where
  "world_small = \<lparr>arrays = [X_small, X_small_incomplete], vectors = [[0, 1]], np_random = 0\<rparr>"

definition logging :: "nat \<Rightarrow> nat list callable" where
  "logging i = (\<lambda>col u. (Inr col, u @ [i]))"

definition remove_above :: "real \<Rightarrow> unit callable" where
  "remove_above threshold = (\<lambda>col u. (Inr (fst (remove_large_values col threshold)), u))"

definition remove_second_when_first_above :: "real \<Rightarrow> unit callable" where
  "remove_second_when_first_above threshold =
     (\<lambda>x u. (Inr (if greater (x ! 0) threshold then x[1 := NaN] else x), u))"

definition uniform_small :: "int \<Rightarrow> nat \<Rightarrow> real" where
  "uniform_small seed k = real ((nat seed + 3 * k) mod 10) / 10"

definition two_folds :: splitter where
  "two_folds num_folds random_state X y = Inr [([1], [0]), ([0], [1])]"


text \<open>An encoder whose marker sorts after every label, fitted on
  \<open>["a", "b", None, "a"]\<close>.\<close>

definition encoder_tilde :: NaNLabelEncoder where
  "encoder_tilde =
     \<lparr>missing_value_marker = Str ''~'', labels = Some [''a'', ''b''],
      treat_unknown_as_missing = False,
      classes_fitted = Some [''a'', ''b'', ''~'']\<rparr>"

section \<open>Properties of the encoder\<close>

declare binsearch_loop.simps [simp del]

lemmas encoder_defs =
  init_def default_marker_def fit_def transform_def inverse_transform_def np_unique_def
  boolean_index_def mask_not_def mask_or_def isin_def assign_masked_def all_strings_def
  strings_of_def intersect1d_def setdiff1d_def searchsorted_def binsearch_loop.simps
  finite_values_def arange_def fancy_index_def

text \<open>
  C3, as the claim states it, fails: fitted on \<open>["a", "b", None, "a"]\<close> with unknown
  labels treated as missing, \<open>transform(["a", "c"])\<close> is not \<open>[0, 2]\<close>.
\<close>

theorem transform_unknown_not_sentinel_index:
  "fit (init default_marker None True) [Str ''a'', Str ''b'', Null, Str ''a''] = Inr encoder_ab
   \<and> transform encoder_ab [Str ''a'', Str ''c''] \<noteq> Inr [Val 0, Val 2]"
  by (simp add: encoder_defs encoder_ab_def)

text \<open>
  C3, amended: fitting on \<open>["a", "b", None, "a"]\<close> gives the class order
  \<open>["a", "b", marker]\<close>, and with unknown labels treated as missing
  \<open>transform(["a", "c"])\<close> returns \<open>[0, NaN]\<close>: the unknown \<open>"c"\<close> is encoded as the
  missing placeholder, not as the marker's index 2.
\<close>

theorem transform_unknown_is_nan:
  "fit (init default_marker None True) [Str ''a'', Str ''b'', Null, Str ''a''] = Inr encoder_ab
   \<and> classes_fitted encoder_ab = Some [''a'', ''b'', ''---NaN---'']
   \<and> transform encoder_ab [Str ''a'', Str ''c''] = Inr [Val 0, NaN]"
  by (simp add: encoder_defs encoder_ab_def)

text \<open>
  C4 at a failing input: fitted on \<open>["a"]\<close> with the default marker, the class list is
  \<open>["a", "---NaN---"]\<close>, which is not in ascending order, and the binary search of
  \<open>transform\<close> gives the fitted label \<open>"a"\<close> the code 2 instead of its rank 0: the
  search starts with the bounds 0 and 2, probes index 1, finds the marker there below
  \<open>"a"\<close> (\<open>"-"\<close> sorts before letters) and moves the lower bound to 2.
\<close>

theorem transform_known_label_wrong_rank:
  "fit (init default_marker None False) [Str ''a''] = Inr encoder_a
   \<and> classes_fitted encoder_a = Some [''a'', ''---NaN---'']
   \<and> transform encoder_a [Str ''a''] = Inr [Val 2]"
  by (simp add: encoder_defs encoder_a_def)

text \<open>
  C5, as the claim states it, fails for the class-count query: on an encoder that was
  constructed with declared labels and never fitted, \<open>get_num_classes\<close> returns their
  number.
\<close>

theorem get_num_classes_unfitted_returns:
  "classes_fitted (init default_marker (Some [''a'']) False) = None
   \<and> get_num_classes (init default_marker (Some [''a'']) False) = Inr 1"
  by (simp add: init_def get_num_classes_def)

text \<open>
  C5, amended: on an encoder that has not been fitted, \<open>transform\<close> and
  \<open>inverse_transform\<close> fail with the not-fitted error (and the array given to
  \<open>inverse_transform\<close> is untouched); \<open>get_num_classes\<close> never raises the not-fitted
  error.
\<close>

theorem unfitted_transform_fails:
  assumes "classes_fitted self = None"
  shows "transform self y = Inl NotFittedError
         \<and> inverse_transform self c = (c, Inl NotFittedError)
         \<and> get_num_classes self \<noteq> Inl NotFittedError"
  using assms by (simp add: transform_def inverse_transform_def get_num_classes_def
      split: option.splits)

theorem unfitted_transform_fails_witness:
  "transform (init default_marker None False) [Str ''a''] = Inl NotFittedError
   \<and> inverse_transform (init default_marker None False) [Val 0] = ([Val 0], Inl NotFittedError)
   \<and> get_num_classes (init default_marker None False) = Inl TypeError"
proof -
  have unfit: "classes_fitted (init default_marker None False) = None"
    by (simp add: init_def)
  show ?thesis
    using unfitted_transform_fails [OF unfit, of "[Str ''a'']" "[Val 0]"]
    by (simp add: get_num_classes_def init_def)
qed

text \<open>
  C10: on a fitted encoder, \<open>inverse_transform\<close> overwrites every NaN of the array it
  is given with \<open>len(classes_) - 1\<close>, whether or not the range check then raises; an
  array that held a NaN is changed by the call.
\<close>

theorem inverse_transform_mutates_argument:
  assumes "classes_fitted self = Some cls"
  shows "fst (inverse_transform self y) =
           map (\<lambda>c. if c = NaN then Val (real_of_int (int (length cls) - 1)) else c) y
         \<and> (NaN \<in> set y \<longrightarrow> fst (inverse_transform self y) \<noteq> y)"
proof -
  have isnan_eq: "isnan c = (c = NaN)" for c
    by (cases c) simp_all
  have upd: "fst (inverse_transform self y) =
               map (\<lambda>c. if c = NaN then Val (real_of_int (int (length cls) - 1)) else c) y"
    using assms
    by (simp add: inverse_transform_def assign_masked_def Let_def zip_map2 zip_same_conv_map
        isnan_eq)
  have "NaN \<notin> set (fst (inverse_transform self y))"
    unfolding upd by auto
  with upd show ?thesis by metis
qed

theorem inverse_transform_mutates_argument_witness:
  "inverse_transform encoder_ab [NaN, Val 5] = ([Val 2, Val 5], Inl (ValueError (NewCodes [5])))
   \<and> fst (inverse_transform encoder_ab [NaN, Val 5]) \<noteq> [NaN, Val 5]"
proof -
  have fitted: "classes_fitted encoder_ab = Some [''a'', ''b'', ''---NaN---'']"
    by (simp add: encoder_ab_def)
  have "NaN \<in> set [NaN, Val 5]" by simp
  with inverse_transform_mutates_argument [OF fitted, of "[NaN, Val 5]"]
  have "fst (inverse_transform encoder_ab [NaN, Val 5]) \<noteq> [NaN, Val 5]" by blast
  moreover have "inverse_transform encoder_ab [NaN, Val 5]
                   = ([Val 2, Val 5], Inl (ValueError (NewCodes [5])))"
    by (simp add: encoder_defs encoder_ab_def)
  ultimately show ?thesis by simp
qed

subsection \<open>The binary search on an ascending array\<close>

lemma rank_of_le_length: "rank_of arr k \<le> length arr"
  by (simp add: rank_of_def)

lemma rank_of_mono: "k \<le> k' \<Longrightarrow> rank_of arr k \<le> rank_of arr k'"
proof -
  assume le: "k \<le> k'"
  have "filter (\<lambda>x. x < k) arr = filter (\<lambda>x. x < k) (filter (\<lambda>x. x < k') arr)"
    using le by (auto intro!: filter_cong)
  then have "length (filter (\<lambda>x. x < k) arr) \<le> length (filter (\<lambda>x. x < k') arr)"
    by (metis length_filter_le)
  then show ?thesis by (simp add: rank_of_def)
qed

lemma sorted_nth_less_iff:
  "sorted arr \<Longrightarrow> i < length arr \<Longrightarrow> (arr ! i < k) = (i < rank_of arr k)"
proof (induction arr arbitrary: i)
  case Nil
  then show ?case by simp
next
  case (Cons x xs)
  show ?case
  proof (cases "x < k")
    case True
    with Cons show ?thesis
      by (cases i) (simp_all add: rank_of_def)
  next
    case False
    with Cons.prems have "\<forall>y\<in>set (x # xs). \<not> y < k"
      by auto
    then have "filter (\<lambda>y. y < k) (x # xs) = []"
      by (simp add: filter_empty_conv)
    moreover have "\<not> (x # xs) ! i < k"
      using \<open>\<forall>y\<in>set (x # xs). \<not> y < k\<close> Cons.prems(2) nth_mem by blast
    ultimately show ?thesis by (simp add: rank_of_def)
  qed
qed

lemma binsearch_loop_sorted:
  "sorted arr \<Longrightarrow> lo \<le> rank_of arr k \<Longrightarrow> rank_of arr k \<le> hi \<Longrightarrow> hi \<le> length arr
     \<Longrightarrow> binsearch_loop arr k lo hi = (rank_of arr k, rank_of arr k)"
proof (induction arr k lo hi rule: binsearch_loop.induct)
  case (1 arr key min_idx max_idx)
  show ?case
  proof (cases "min_idx < max_idx")
    case False
    with "1.prems" show ?thesis
      by (simp add: binsearch_loop.simps)
  next
    case True
    let ?mid = "min_idx + (max_idx - min_idx) div 2"
    have mid: "?mid < max_idx" "min_idx \<le> ?mid" using True by auto
    then have in_range: "?mid < length arr" using "1.prems" by simp
    show ?thesis
    proof (cases "arr ! ?mid < key")
      case less: True
      then have "?mid < rank_of arr key"
        using sorted_nth_less_iff [OF "1.prems"(1) in_range] by simp
      then have "binsearch_loop arr key (?mid + 1) max_idx = (rank_of arr key, rank_of arr key)"
        using "1.IH"(1) [OF True less] "1.prems" by simp
      with True less show ?thesis
        by (subst binsearch_loop.simps) simp
    next
      case geq: False
      then have "rank_of arr key \<le> ?mid"
        using sorted_nth_less_iff [OF "1.prems"(1) in_range] by simp
      then have "binsearch_loop arr key min_idx ?mid = (rank_of arr key, rank_of arr key)"
        using "1.IH"(2) [OF True geq] "1.prems" mid by simp
      with True geq show ?thesis
        by (subst binsearch_loop.simps) simp
    qed
  qed
qed

lemma binsearch_keys_sorted:
  "sorted arr \<Longrightarrow> lo \<le> rank_of arr last_key \<Longrightarrow> rank_of arr last_key \<le> hi
     \<Longrightarrow> hi \<le> length arr
     \<Longrightarrow> binsearch_keys arr lo hi last_key keys = map (rank_of arr) keys"
proof (induction keys arbitrary: lo hi last_key)
  case Nil
  then show ?case by simp
next
  case (Cons key keys)
  let ?r = "rank_of arr key"
  have step: "binsearch_loop arr key (if last_key < key then lo else 0)
                (if last_key < key then length arr
                 else if hi < length arr then hi + 1 else length arr) = (?r, ?r)"
  proof (cases "last_key < key")
    case True
    then have "rank_of arr last_key \<le> ?r"
      by (intro rank_of_mono) simp
    then have "lo \<le> ?r"
      using Cons.prems(2) by simp
    with True show ?thesis
      using binsearch_loop_sorted [OF Cons.prems(1), of lo key "length arr"]
      by (simp add: rank_of_le_length)
  next
    case False
    then have "?r \<le> rank_of arr last_key"
      by (intro rank_of_mono) simp
    then have "?r \<le> hi"
      using Cons.prems(3) by simp
    with False show ?thesis
      using binsearch_loop_sorted [OF Cons.prems(1), of 0 key]
      by (simp add: rank_of_le_length)
  qed
  have "binsearch_keys arr ?r ?r key keys = map (rank_of arr) keys"
    using Cons.IH [OF Cons.prems(1), of ?r key ?r] by (simp add: rank_of_le_length)
  with step show ?case by simp
qed

lemma searchsorted_sorted:
  assumes "sorted a"
  shows "searchsorted a v = map (rank_of a) v"
proof (cases v)
  case Nil
  then show ?thesis by (simp add: searchsorted_def)
next
  case (Cons k ks)
  have "binsearch_keys a 0 (length a) k (k # ks) = map (rank_of a) (k # ks)"
    by (rule binsearch_keys_sorted) (simp_all add: assms rank_of_le_length)
  with Cons show ?thesis by (simp only: searchsorted_def list.case)
qed

lemma rank_of_member:
  assumes "sorted arr" and "k \<in> set arr"
  shows "rank_of arr k < length arr \<and> arr ! rank_of arr k = k"
proof -
  from assms(2) obtain j where j: "j < length arr" "arr ! j = k"
    by (auto simp: in_set_conv_nth)
  have "\<not> j < rank_of arr k"
    using sorted_nth_less_iff [OF assms(1) j(1), of k] j(2) by simp
  then have le: "rank_of arr k \<le> j" by simp
  with j have lt: "rank_of arr k < length arr" by simp
  have "\<not> arr ! rank_of arr k < k"
    using sorted_nth_less_iff [OF assms(1) lt, of k] by simp
  moreover have "arr ! rank_of arr k \<le> k"
    using sorted_nth_mono [OF assms(1) le j(1)] j(2) by simp
  ultimately show ?thesis using lt by auto
qed

subsection \<open>Encoding and decoding over an ascending class list\<close>

lemma assign_masked_map:
  "assign_masked (map f xs) (map p xs) v = map (\<lambda>x. if p x then v else f x) xs"
  by (simp add: assign_masked_def zip_map_map zip_same_conv_map)

lemma boolean_index_map:
  "boolean_index (map f xs) (map p xs) = map f (filter p xs)"
  by (induction xs) (simp_all add: boolean_index_def)

lemma mask_or_map: "mask_or (map p xs) (map q xs) = map (\<lambda>x. p x \<or> q x) xs"
  by (simp add: mask_or_def zip_map_map zip_same_conv_map)

lemma mask_not_map: "mask_not (map p xs) = map (\<lambda>x. \<not> p x) xs"
  by (simp add: mask_not_def)

lemma set_np_unique: "set (np_unique xs) = set xs"
  by (simp add: np_unique_def)

lemma isnull_iff: "isnull l = (l = Null)"
  by (cases l) simp_all

lemma isnan_iff: "isnan c = (c = NaN)"
  by (cases c) simp_all

lemma strings_of_map:
  "strings_of (map (\<lambda>l. if isnull l then Str m else l) y) = map (label_or m) y"
proof (induction y)
  case Nil
  then show ?case by (simp add: strings_of_def)
next
  case (Cons l y)
  then show ?case by (cases l) (simp_all add: strings_of_def)
qed

lemma np_unique_idem: "np_unique (np_unique xs) = np_unique xs"
proof -
  have "distinct (np_unique xs)" and "sorted (np_unique xs)"
    by (simp_all add: np_unique_def)
  then have "remdups (np_unique xs) = np_unique xs" and "sort (np_unique xs) = np_unique xs"
    by (simp_all add: distinct_remdups_id sorted_sort_id)
  then show ?thesis
    by (simp add: np_unique_def [of "np_unique xs"] distinct_remdups_id)
qed

lemma all_strings_map:
  "all_strings (map (\<lambda>l. if isnull l then Str m else l) y) = Some (map (label_or m) y)"
proof -
  have "list_all (\<lambda>l. \<not> isnull l) (map (\<lambda>l. if isnull l then Str m else l) y)"
    by (induction y) simp_all
  then show ?thesis
    by (simp only: all_strings_def strings_of_map if_True)
qed

lemma transform_known:
  assumes fitted: "classes_fitted self = Some cls"
    and marker: "missing_value_marker self = Str m" "m \<in> set cls"
    and sorted: "sorted cls"
    and known: "\<forall>l\<in>set y. l = Null \<or> (\<exists>s\<in>set cls. l = Str s)"
  shows "transform self y = Inr (map (code_of cls) y)"
proof -
  have unknown: "map (\<lambda>l. isnull l \<or> l \<notin> Str ` set cls) y = map isnull y"
    using known by (auto simp: isnull_iff)
  have m_nan: "(if treat_unknown_as_missing self
                then mask_or (map isnull y) (mask_not (isin y (map Str cls)))
                else map isnull y) = map isnull y"
    by (simp add: isin_def mask_not_map mask_or_map unknown)
  let ?y = "map (\<lambda>l. if isnull l then Str m else l) y"
  have subst: "assign_masked y (map isnull y) (Str m) = ?y"
    using assign_masked_map [of "\<lambda>l. l" y isnull "Str m"] by simp
  have strs: "all_strings ?y = Some (map (label_or m) y)"
    by (rule all_strings_map)
  have in_cls: "set (map (label_or m) y) \<subseteq> set cls"
  proof
    fix s assume "s \<in> set (map (label_or m) y)"
    then obtain l where "l \<in> set y" "s = label_or m l" by auto
    with known marker(2) show "s \<in> set cls" by (cases l) auto
  qed
  then have all_known: "intersect1d (np_unique (map (label_or m) y)) cls
                          = np_unique (np_unique (map (label_or m) y))"
    by (auto simp: intersect1d_def set_np_unique filter_id_conv)
  have len: "(length (intersect1d (np_unique (map (label_or m) y)) cls)
               < length (np_unique (map (label_or m) y))) = False"
    unfolding all_known np_unique_idem by simp
  have codes: "assign_masked (map (\<lambda>i. Val (real i)) (searchsorted cls (map (label_or m) y)))
                 (map isnull y) NaN = map (code_of cls) y"
  proof -
    have "map (\<lambda>i. Val (real i)) (searchsorted cls (map (label_or m) y))
            = map (\<lambda>l. Val (real (rank_of cls (label_or m l)))) y"
      by (simp add: searchsorted_sorted [OF sorted])
    then have "assign_masked (map (\<lambda>i. Val (real i)) (searchsorted cls (map (label_or m) y)))
                 (map isnull y) NaN
               = map (\<lambda>l. if isnull l then NaN else Val (real (rank_of cls (label_or m l)))) y"
      by (simp only: assign_masked_map)
    also have "\<dots> = map (code_of cls) y"
    proof (rule map_cong [OF refl])
      fix l show "(if isnull l then NaN else Val (real (rank_of cls (label_or m l)))) = code_of cls l"
        by (cases l) simp_all
    qed
    finally show ?thesis .
  qed
  show ?thesis
    unfolding transform_def
    by (simp only: fitted marker option.case Let_def m_nan subst strs len codes if_False)
qed

lemma those_map_Some: "those (map (\<lambda>x. Some (f x)) xs) = Some (map f xs)"
  by (induction xs) simp_all

lemma as_int_of_int: "as_int (Val (real_of_int i)) = Some i"
  by simp

lemma finite_values_map_Val: "finite_values (map (\<lambda>x. Val (f x)) xs) = map f xs"
  by (induction xs) (simp_all add: finite_values_def)

lemma setdiff1d_empty: "set xs \<subseteq> set ys \<Longrightarrow> setdiff1d xs ys = []"
  by (auto simp: setdiff1d_def set_np_unique filter_empty_conv)

lemma inverse_transform_codes:
  assumes fitted: "classes_fitted self = Some cls"
    and sorted: "sorted cls" and nonempty: "cls \<noteq> []"
    and known: "\<forall>l\<in>set y. l = Null \<or> (\<exists>s\<in>set cls. l = Str s)"
  shows "inverse_transform self (map (code_of cls) y)
           = (map (\<lambda>l. Val (real_of_int (index_of cls l))) y, Inr (map (label_or (last cls)) y))"
proof -
  let ?top = "Val (real_of_int (int (length cls) - 1))"
  have m_nan: "map isnan (map (code_of cls) y) = map isnull y"
  proof -
    have "isnan (code_of cls l) = isnull l" for l by (cases l) simp_all
    then show ?thesis by simp
  qed
  have upd: "assign_masked (map (code_of cls) y) (map isnull y) ?top
               = map (\<lambda>l. Val (real_of_int (index_of cls l))) y"
  proof -
    have "(if isnull l then ?top else code_of cls l) = Val (real_of_int (index_of cls l))" for l
      by (cases l) simp_all
    then show ?thesis by (simp only: assign_masked_map)
  qed
  have sel: "finite_values (boolean_index (map (\<lambda>l. Val (real_of_int (index_of cls l))) y)
                              (mask_not (map isnull y)))
               = map (\<lambda>l. real_of_int (index_of cls l)) (filter (\<lambda>l. \<not> isnull l) y)"
    by (simp only: mask_not_map boolean_index_map finite_values_map_Val)
  have rank_lt: "rank_of cls s < length cls" if "s \<in> set cls" for s
    using rank_of_member [OF sorted that] by simp
  have "set (map (\<lambda>l. real_of_int (index_of cls l)) (filter (\<lambda>l. \<not> isnull l) y))
          \<subseteq> set (arange (length cls))"
  proof
    fix v assume "v \<in> set (map (\<lambda>l. real_of_int (index_of cls l)) (filter (\<lambda>l. \<not> isnull l) y))"
    then obtain l where l: "l \<in> set y" "\<not> isnull l" "v = real_of_int (index_of cls l)"
      by auto
    with known obtain s where s: "l = Str s" "s \<in> set cls"
      by (cases l) auto
    then have "v = real (rank_of cls s)" using l by simp
    with rank_lt [OF s(2)] show "v \<in> set (arange (length cls))"
      by (simp add: arange_def)
  qed
  then have diff: "setdiff1d (map (\<lambda>l. real_of_int (index_of cls l)) (filter (\<lambda>l. \<not> isnull l) y))
                     (arange (length cls)) = []"
    by (rule setdiff1d_empty)
  have ints: "those (map as_int (map (\<lambda>l. Val (real_of_int (index_of cls l))) y))
                = Some (map (index_of cls) y)"
    by (simp only: map_map o_def as_int_of_int those_map_Some)
  have in_range: "0 \<le> index_of cls l \<and> index_of cls l < int (length cls)
                  \<and> cls ! nat (index_of cls l) = label_or (last cls) l" if "l \<in> set y" for l
  proof (cases l)
    case Null
    with nonempty show ?thesis
      by (simp add: last_conv_nth nat_diff_distrib')
  next
    case (Str s)
    with known that have "s \<in> set cls" by auto
    with rank_of_member [OF sorted this] Str show ?thesis by simp
  qed
  have idx: "fancy_index cls (map (index_of cls) y) = Inr (map (label_or (last cls)) y)"
  proof -
    have "list_all (\<lambda>i. - int (length cls) \<le> i \<and> i < int (length cls)) (map (index_of cls) y)"
      using in_range by (fastforce simp: list_all_iff)
    moreover have "map (\<lambda>i. cls ! nat (if i < 0 then i + int (length cls) else i))
                     (map (index_of cls) y) = map (label_or (last cls)) y"
    proof (simp only: map_map o_def, rule map_cong [OF refl])
      fix l assume "l \<in> set y"
      from in_range [OF this]
      show "cls ! nat (if index_of cls l < 0 then index_of cls l + int (length cls)
                       else index_of cls l) = label_or (last cls) l"
        by simp
    qed
    ultimately show ?thesis by (simp only: fancy_index_def if_True)
  qed
  show ?thesis
    unfolding inverse_transform_def
    by (simp only: fitted option.case Let_def m_nan upd sel diff truth_value.simps sum.case
        bool.case ints idx)
qed

lemma fit_fitted:
  assumes "fit enc0 y0 = Inr enc"
  shows "\<exists>m labs. missing_value_marker enc = Str m \<and> classes_fitted enc = Some (labs @ [m])"
  using assms
  by (auto simp: fit_def Let_def split: label.splits if_splits)

text \<open>
  C1, as the claim states it, fails on a missing entry: fitted on
  \<open>["a", "b", None, "a"]\<close>, the round trip of \<open>[None, "b"]\<close> returns
  \<open>["---NaN---", "b"]\<close>, the marker string where the missing entry was.
\<close>

theorem roundtrip_missing_not_restored:
  "fit (init default_marker None True) [Str ''a'', Str ''b'', Null, Str ''a''] = Inr encoder_ab
   \<and> transform encoder_ab [Null, Str ''b''] = Inr [NaN, Val 1]
   \<and> snd (inverse_transform encoder_ab [NaN, Val 1]) = Inr [''---NaN---'', ''b'']
   \<and> map Str [''---NaN---'', ''b''] \<noteq> [Null, Str ''b'']"
  by (simp add: encoder_defs encoder_ab_def)

text \<open>
  C1, amended: for an encoder fitted on some label sequence whose class list (the
  sorted labels, then the marker) is in ascending order, and for every label sequence
  whose entries are fitted classes or missing, \<open>transform\<close> succeeds and
  \<open>inverse_transform\<close> of its result returns the sequence with the marker string in the
  place of every missing entry.
\<close>

theorem roundtrip_sorted_classes:
  assumes "fit enc0 y0 = Inr enc"
    and "classes_fitted enc = Some cls" and "missing_value_marker enc = Str m"
    and "sorted cls"
    and "\<forall>l\<in>set L. l = Null \<or> (\<exists>s\<in>set cls. l = Str s)"
  shows "\<exists>codes. transform enc L = Inr codes
           \<and> snd (inverse_transform enc codes) = Inr (map (label_or m) L)"
proof -
  from fit_fitted [OF assms(1)] assms(2,3) obtain labs where cls: "cls = labs @ [m]"
    by auto
  then have m: "m \<in> set cls" "cls \<noteq> []" "last cls = m"
    by simp_all
  have "transform enc L = Inr (map (code_of cls) L)"
    using transform_known [OF assms(2,3) m(1) assms(4,5)] .
  moreover have "snd (inverse_transform enc (map (code_of cls) L)) = Inr (map (label_or m) L)"
    using inverse_transform_codes [OF assms(2,4) m(2) assms(5)] m(3) by simp
  ultimately show ?thesis by blast
qed

theorem roundtrip_sorted_classes_witness:
  "transform encoder_tilde [Null, Str ''b'', Str ''a'', Str ''~'']
     = Inr [NaN, Val 1, Val 0, Val 2]
   \<and> snd (inverse_transform encoder_tilde [NaN, Val 1, Val 0, Val 2])
     = Inr [''~'', ''b'', ''a'', ''~'']"
proof -
  have fitted: "fit (init (Str ''~'') None False) [Str ''a'', Str ''b'', Null, Str ''a'']
                  = Inr encoder_tilde"
    by (simp add: encoder_defs encoder_tilde_def)
  have cls: "classes_fitted encoder_tilde = Some [''a'', ''b'', ''~'']"
    and marker: "missing_value_marker encoder_tilde = Str ''~''"
    by (simp_all add: encoder_tilde_def)
  have ascending: "sorted [''a'', ''b'', ''~'']"
    by simp
  have known: "\<forall>l\<in>set [Null, Str ''b'', Str ''a'', Str ''~''].
                 l = Null \<or> (\<exists>s\<in>set [''a'', ''b'', ''~'']. l = Str s)"
    by simp
  from roundtrip_sorted_classes [OF fitted cls marker ascending known]
  obtain codes where
    "transform encoder_tilde [Null, Str ''b'', Str ''a'', Str ''~''] = Inr codes" and
    "snd (inverse_transform encoder_tilde codes)
       = Inr (map (label_or ''~'') [Null, Str ''b'', Str ''a'', Str ''~''])"
    by blast
  moreover have "transform encoder_tilde [Null, Str ''b'', Str ''a'', Str ''~'']
                   = Inr [NaN, Val 1, Val 0, Val 2]"
    by (simp add: encoder_defs encoder_tilde_def)
  ultimately show ?thesis by simp
qed

text \<open>
  With the default marker, which sorts before letters, the class list is not in
  ascending order and the round trip of a fitted label can raise: the code that
  \<open>transform\<close> gives \<open>"a"\<close> is outside the range that \<open>inverse_transform\<close> accepts.
\<close>

lemma roundtrip_default_marker_raises:
  "transform encoder_a [Str ''a''] = Inr [Val 2]
   \<and> snd (inverse_transform encoder_a [Val 2]) = Inl (ValueError (NewCodes [2]))"
  by (simp add: encoder_defs encoder_a_def)

section \<open>Properties of the missing-data utilities\<close>

text \<open>
  C2 at every input: the call raises \<open>NameError\<close> on the misspelt name \<open>mechanims\<close>
  before it looks at the mechanism, whatever the tag, and leaves the state as it was.
\<close>

theorem get_incomplete_data_name_error:
  "get_incomplete_data uniform X mechanism missing_likelihood random_state (w, u)
     = (Inl (NameError ''mechanims''), w, u)"
  by (simp add: get_incomplete_data_def local_names_def module_names_def)

subsection \<open>Frames of the injectors and of the splitter\<close>

lemma unchanged_refl: "unchanged w w"
  by (simp add: unchanged_def)

lemma unchanged_trans: "unchanged w1 w2 \<Longrightarrow> unchanged w2 w3 \<Longrightarrow> unchanged w1 w3"
  unfolding unchanged_def
  by (metis append_eq_conv_conj append_take_drop_id append.assoc)

lemma unchanged_alloc: "alloc m w = (a, w') \<Longrightarrow> unchanged w w' \<and> fresh w w' a"
  by (auto simp: alloc_def unchanged_def fresh_def)

lemma nmar_columns_frame:
  assumes "nmar_columns fs X X_ret cols (w, u) = (r, w', u')"
  shows "length (arrays w') = length (arrays w)
         \<and> take X_ret (arrays w') = take X_ret (arrays w)
         \<and> vectors w' = vectors w"
  using assms
proof (induction cols arbitrary: w u)
  case Nil
  then show ?case by simp
next
  case (Cons i cols)
  then show ?case
    by (auto split: option.splits sum.splits prod.splits)
qed

lemma mar_rows_frame:
  assumes "mar_rows f X X_ret rs (w, u) = (r, w', u')"
  shows "length (arrays w') = length (arrays w)
         \<and> take X_ret (arrays w') = take X_ret (arrays w)
         \<and> vectors w' = vectors w"
  using assms
proof (induction rs arbitrary: w u)
  case Nil
  then show ?case by simp
next
  case (Cons i rs)
  then show ?case
    by (auto split: option.splits sum.splits prod.splits)
qed

lemma nmar_frame:
  assumes "get_nmar_incomplete_data X ml seed (w, u) = (res, w', u')"
  shows "unchanged w w' \<and> (\<forall>r. res = Inr r \<longrightarrow> fresh w w' r)"
proof (cases ml)
  case None
  with assms show ?thesis by (auto simp: get_nmar_incomplete_data_def unchanged_def)
next
  case (Some fs)
  show ?thesis
  proof (cases "length fs \<noteq> ncols (arrays w ! X)")
    case True
    with assms Some show ?thesis by (auto simp: get_nmar_incomplete_data_def unchanged_def)
  next
    case False
    define w0 where "w0 = w\<lparr>np_random := seed\<rparr>"
    define w1 where "w1 = w0\<lparr>arrays := arrays w0 @ [arrays w0 ! X]\<rparr>"
    obtain e where loop: "nmar_columns fs X (length (arrays w)) [0..<ncols (arrays w ! X)] (w1, u) = (e, w', u')"
      and res: "res = (case e of Some x \<Rightarrow> Inl x | None \<Rightarrow> Inr (length (arrays w)))"
      using assms Some False
      by (auto simp: get_nmar_incomplete_data_def alloc_def w0_def w1_def Let_def split: prod.splits option.splits)
    from nmar_columns_frame [OF loop]
    have "length (arrays w') = Suc (length (arrays w))"
      and "take (length (arrays w)) (arrays w') = arrays w"
      and "vectors w' = vectors w"
      by (simp_all add: w1_def w0_def)
    with res show ?thesis
      by (auto simp: unchanged_def fresh_def split: option.splits)
  qed
qed

lemma mar_frame:
  assumes "get_mar_incomplete_data X f seed (w, u) = (res, w', u')"
  shows "unchanged w w' \<and> (\<forall>r. res = Inr r \<longrightarrow> fresh w w' r)"
proof -
  define w0 where "w0 = w\<lparr>np_random := seed\<rparr>"
  define w1 where "w1 = w0\<lparr>arrays := arrays w0 @ [full_like (arrays w0 ! X) NaN]\<rparr>"
  obtain e where loop: "mar_rows f X (length (arrays w)) [0..<length (rows (arrays w ! X))] (w1, u) = (e, w', u')"
    and res: "res = (case e of Some x \<Rightarrow> Inl x | None \<Rightarrow> Inr (length (arrays w)))"
    using assms
    by (auto simp: get_mar_incomplete_data_def alloc_def w0_def w1_def Let_def split: prod.splits option.splits)
  from mar_rows_frame [OF loop]
  have "length (arrays w') = Suc (length (arrays w))"
    and "take (length (arrays w)) (arrays w') = arrays w"
    and "vectors w' = vectors w"
    by (simp_all add: w1_def w0_def)
  with res show ?thesis
    by (auto simp: unchanged_def fresh_def split: option.splits)
qed

lemma mcar_frame:
  assumes "get_mcar_incomplete_data uniform X p seed w = (r, w')"
  shows "unchanged w w' \<and> fresh w w' r"
  using assms
  by (auto simp: get_mcar_incomplete_data_def split: prod.splits dest: unchanged_alloc)

lemma index_matrix_cases:
  assumes "index_matrix X idx w = (res, w')"
  shows "(\<exists>e. res = Inl e \<and> w' = w)
         \<or> (res = Inr (length (arrays w))
            \<and> list_all (\<lambda>i. i < length (rows (arrays w ! X))) idx
            \<and> w' = w\<lparr>arrays := arrays w @
                 [(arrays w ! X)\<lparr>rows := map (\<lambda>i. rows (arrays w ! X) ! i) idx\<rparr>]\<rparr>)"
  using assms
  by (auto simp: index_matrix_def select_rows_def alloc_def split: if_splits)

lemma index_vector_cases:
  assumes "index_vector y idx w = (res, w')"
  shows "(\<exists>e. res = Inl e \<and> w' = w)
         \<or> (res = Inr (length (vectors w))
            \<and> w' = w\<lparr>vectors := vectors w @ [map (\<lambda>i. vectors w ! y ! i) idx]\<rparr>)"
  using assms
  by (auto simp: index_vector_def select_rows_def alloc_vector_def split: if_splits)

lemma bind_Inr_iff:
  "(bind m k w = (Inr b, w')) = (\<exists>a w1. m w = (Inr a, w1) \<and> k a w1 = (Inr b, w'))"
  by (auto simp: bind_def split: prod.splits sum.splits)

lemma splits_steps:
  assumes "get_incomplete_data_splits cv Xc Xi y fold_n k seed w = (Inr ds, w')"
  shows "\<exists>splits train test a1 w1 a2 w2 a3 w3 a4 w4 a5 w5 a6.
           cv k seed (arrays w ! Xc) (vectors w ! y) = Inr splits
         \<and> nth_or_none splits fold_n = Some (train, test)
         \<and> index_matrix Xc train w = (Inr a1, w1)
         \<and> index_vector y train w1 = (Inr a2, w2)
         \<and> index_matrix Xc test w2 = (Inr a3, w3)
         \<and> index_vector y test w3 = (Inr a4, w4)
         \<and> index_matrix Xi train w4 = (Inr a5, w5)
         \<and> index_matrix Xi test w5 = (Inr a6, w')
         \<and> ds = \<lparr>X_train_complete = a1, X_train_incomplete = a5, X_test_complete = a3,
                  X_test_incomplete = a6, y_train = a2, y_test = a4\<rparr>"
  using assms
  by (auto simp: get_incomplete_data_splits_def bind_Inr_iff split: option.splits)

lemma splits_success_form:
  assumes run: "get_incomplete_data_splits cv Xc Xi y fold_n k seed w = (Inr ds, w')"
    and Xc: "Xc < length (arrays w)" and Xi: "Xi < length (arrays w)"
  shows "\<exists>splits train test.
           cv k seed (arrays w ! Xc) (vectors w ! y) = Inr splits
         \<and> fold_n < length splits \<and> splits ! fold_n = (train, test)
         \<and> arrays w' = arrays w @
              [(arrays w ! Xc)\<lparr>rows := map (\<lambda>i. rows (arrays w ! Xc) ! i) train\<rparr>,
               (arrays w ! Xc)\<lparr>rows := map (\<lambda>i. rows (arrays w ! Xc) ! i) test\<rparr>,
               (arrays w ! Xi)\<lparr>rows := map (\<lambda>i. rows (arrays w ! Xi) ! i) train\<rparr>,
               (arrays w ! Xi)\<lparr>rows := map (\<lambda>i. rows (arrays w ! Xi) ! i) test\<rparr>]
         \<and> ds = \<lparr>X_train_complete = length (arrays w),
                  X_train_incomplete = length (arrays w) + 2,
                  X_test_complete = length (arrays w) + 1,
                  X_test_incomplete = length (arrays w) + 3,
                  y_train = length (vectors w), y_test = length (vectors w) + 1\<rparr>"
proof -
  from splits_steps [OF run] obtain splits train test a1 w1 a2 w2 a3 w3 a4 w4 a5 w5 a6 where
    cv: "cv k seed (arrays w ! Xc) (vectors w ! y) = Inr splits" and
    nth: "nth_or_none splits fold_n = Some (train, test)" and
    s1: "index_matrix Xc train w = (Inr a1, w1)" and
    s2: "index_vector y train w1 = (Inr a2, w2)" and
    s3: "index_matrix Xc test w2 = (Inr a3, w3)" and
    s4: "index_vector y test w3 = (Inr a4, w4)" and
    s5: "index_matrix Xi train w4 = (Inr a5, w5)" and
    s6: "index_matrix Xi test w5 = (Inr a6, w')" and
    ds: "ds = \<lparr>X_train_complete = a1, X_train_incomplete = a5, X_test_complete = a3,
               X_test_incomplete = a6, y_train = a2, y_test = a4\<rparr>"
    by blast
  from index_matrix_cases [OF s1] index_vector_cases [OF s2] index_matrix_cases [OF s3]
    index_vector_cases [OF s4] index_matrix_cases [OF s5] index_matrix_cases [OF s6] Xc Xi
  have "arrays w' = arrays w @
              [(arrays w ! Xc)\<lparr>rows := map (\<lambda>i. rows (arrays w ! Xc) ! i) train\<rparr>,
               (arrays w ! Xc)\<lparr>rows := map (\<lambda>i. rows (arrays w ! Xc) ! i) test\<rparr>,
               (arrays w ! Xi)\<lparr>rows := map (\<lambda>i. rows (arrays w ! Xi) ! i) train\<rparr>,
               (arrays w ! Xi)\<lparr>rows := map (\<lambda>i. rows (arrays w ! Xi) ! i) test\<rparr>]"
    and "a1 = length (arrays w)" and "a3 = length (arrays w) + 1" and "a5 = length (arrays w) + 2"
    and "a6 = length (arrays w) + 3" and "a2 = length (vectors w)" and "a4 = length (vectors w) + 1"
    by (auto simp: nth_append)
  with ds cv nth show ?thesis
    by (auto simp: nth_or_none_def split: if_splits)
qed

lemma index_matrix_unchanged:
  "index_matrix X idx w = (res, w') \<Longrightarrow> unchanged w w'"
  by (auto simp: index_matrix_def alloc_def unchanged_def split: sum.splits)

lemma index_vector_unchanged:
  "index_vector y idx w = (res, w') \<Longrightarrow> unchanged w w'"
  by (auto simp: index_vector_def alloc_vector_def unchanged_def split: sum.splits)

lemma bind_unchanged:
  assumes "bind m k w = (res, w')"
    and "\<And>r w1. m w = (r, w1) \<Longrightarrow> unchanged w w1"
    and "\<And>a w1 r w2. m w = (Inr a, w1) \<Longrightarrow> k a w1 = (r, w2) \<Longrightarrow> unchanged w1 w2"
  shows "unchanged w w'"
  using assms
  by (auto simp: bind_def split: prod.splits sum.splits intro: unchanged_trans)

lemma splits_unchanged:
  assumes "get_incomplete_data_splits cv Xc Xi y fold_n k seed w = (res, w')"
  shows "unchanged w w'"
  using assms unfolding get_incomplete_data_splits_def
  apply (elim bind_unchanged)
  apply (auto simp: unchanged_refl split: prod.splits elim!: bind_unchanged
         dest: index_matrix_unchanged index_vector_unchanged)
  done

lemma splits_fresh:
  assumes run: "get_incomplete_data_splits cv Xc Xi y fold_n k seed w = (Inr ds, w')"
  shows "length (arrays w') = length (arrays w) + 4
       \<and> length (vectors w') = length (vectors w) + 2
       \<and> ds = \<lparr>X_train_complete = length (arrays w),
                  X_train_incomplete = length (arrays w) + 2,
                  X_test_complete = length (arrays w) + 1,
                  X_test_incomplete = length (arrays w) + 3,
                  y_train = length (vectors w), y_test = length (vectors w) + 1\<rparr>"
proof -
  from splits_steps [OF run] obtain splits train test a1 w1 a2 w2 a3 w3 a4 w4 a5 w5 a6 where
    s1: "index_matrix Xc train w = (Inr a1, w1)" and
    s2: "index_vector y train w1 = (Inr a2, w2)" and
    s3: "index_matrix Xc test w2 = (Inr a3, w3)" and
    s4: "index_vector y test w3 = (Inr a4, w4)" and
    s5: "index_matrix Xi train w4 = (Inr a5, w5)" and
    s6: "index_matrix Xi test w5 = (Inr a6, w')" and
    ds: "ds = \<lparr>X_train_complete = a1, X_train_incomplete = a5, X_test_complete = a3,
               X_test_incomplete = a6, y_train = a2, y_test = a4\<rparr>"
    by blast
  from index_matrix_cases [OF s1] index_vector_cases [OF s2] index_matrix_cases [OF s3]
    index_vector_cases [OF s4] index_matrix_cases [OF s5] index_matrix_cases [OF s6] ds
  show ?thesis by auto
qed

text \<open>
  C7: each of the three injectors and the splitter leaves every array and vector that
  existed before the call at its address with its contents, whether it returns or
  raises, and every array it returns was allocated by the call. (The callables are
  taken to honour their contract of not writing through the view they receive, and
  the MCAR helper is the one modelled above.)
\<close>

theorem injectors_and_splitter_leave_inputs:
  "(case get_mcar_incomplete_data uniform X1 p s1 w1 of
      (r, w') \<Rightarrow> unchanged w1 w' \<and> fresh w1 w' r)
 \<and> (case get_nmar_incomplete_data X2 fs s2 (w2, u) of
      (res, w', u') \<Rightarrow> unchanged w2 w' \<and> (\<forall>r. res = Inr r \<longrightarrow> fresh w2 w' r))
 \<and> (case get_mar_incomplete_data X3 f s3 (w3, v) of
      (res, w', v') \<Rightarrow> unchanged w3 w' \<and> (\<forall>r. res = Inr r \<longrightarrow> fresh w3 w' r))
 \<and> (case get_incomplete_data_splits cv Xc Xi y fold_n k s4 w4 of
      (res, w') \<Rightarrow> unchanged w4 w' \<and>
        (\<forall>ds. res = Inr ds \<longrightarrow>
           fresh w4 w' (X_train_complete ds) \<and> fresh w4 w' (X_train_incomplete ds)
         \<and> fresh w4 w' (X_test_complete ds) \<and> fresh w4 w' (X_test_incomplete ds)
         \<and> fresh_vector w4 w' (y_train ds) \<and> fresh_vector w4 w' (y_test ds)
         \<and> distinct [X_train_complete ds, X_train_incomplete ds,
                      X_test_complete ds, X_test_incomplete ds]
         \<and> y_train ds \<noteq> y_test ds))"
proof (intro conjI)
  show "case get_mcar_incomplete_data uniform X1 p s1 w1 of
      (r, w') \<Rightarrow> unchanged w1 w' \<and> fresh w1 w' r"
    using mcar_frame by (auto split: prod.splits)
  show "case get_nmar_incomplete_data X2 fs s2 (w2, u) of
      (res, w', u') \<Rightarrow> unchanged w2 w' \<and> (\<forall>r. res = Inr r \<longrightarrow> fresh w2 w' r)"
    using nmar_frame by (fastforce split: prod.splits)
  show "case get_mar_incomplete_data X3 f s3 (w3, v) of
      (res, w', v') \<Rightarrow> unchanged w3 w' \<and> (\<forall>r. res = Inr r \<longrightarrow> fresh w3 w' r)"
    using mar_frame by (fastforce split: prod.splits)
  show "case get_incomplete_data_splits cv Xc Xi y fold_n k s4 w4 of
      (res, w') \<Rightarrow> unchanged w4 w' \<and>
        (\<forall>ds. res = Inr ds \<longrightarrow>
           fresh w4 w' (X_train_complete ds) \<and> fresh w4 w' (X_train_incomplete ds)
         \<and> fresh w4 w' (X_test_complete ds) \<and> fresh w4 w' (X_test_incomplete ds)
         \<and> fresh_vector w4 w' (y_train ds) \<and> fresh_vector w4 w' (y_test ds)
         \<and> distinct [X_train_complete ds, X_train_incomplete ds,
                      X_test_complete ds, X_test_incomplete ds]
         \<and> y_train ds \<noteq> y_test ds)"
  proof (cases "get_incomplete_data_splits cv Xc Xi y fold_n k s4 w4")
    case (Pair res w')
    have "unchanged w4 w'" using splits_unchanged [OF Pair] .
    moreover have "fresh w4 w' (X_train_complete ds) \<and> fresh w4 w' (X_train_incomplete ds)
         \<and> fresh w4 w' (X_test_complete ds) \<and> fresh w4 w' (X_test_incomplete ds)
         \<and> fresh_vector w4 w' (y_train ds) \<and> fresh_vector w4 w' (y_test ds)
         \<and> distinct [X_train_complete ds, X_train_incomplete ds,
                      X_test_complete ds, X_test_incomplete ds]
         \<and> y_train ds \<noteq> y_test ds" if "res = Inr ds" for ds
      using splits_fresh [of cv Xc Xi y fold_n k s4 w4 ds w'] Pair that
      by (simp add: fresh_def fresh_vector_def)
    ultimately show ?thesis using Pair by simp
  qed
qed

lemma upt2: "[0..<2::nat] = [0, 1]"
  by (simp add: eval_nat_numeral)

lemma X_small_shape: "ncols X_small = 2" "length (rows X_small) = 2"
  by (simp_all add: X_small_def)

lemma X_small_column: "column X_small (Suc 0) = [Val 5, Val 2]"
  by (simp add: column_def X_small_def)

lemma remove_above_column: "remove_above 4 [Val 5, Val 2] () = (Inr [NaN, Val 2], ())"
  by (simp add: remove_above_def remove_large_values_def assign_masked_def)

lemma X_small_set_column: "set_column X_small (Suc 0) [NaN, Val 2] = Inr X_small_incomplete"
  by (simp add: set_column_def X_small_def X_small_incomplete_def)

lemma mcar_small:
  "get_mcar_incomplete_data uniform_small 0 (3/10) 8675309 world_small
     = (2, world_small\<lparr>arrays := [X_small, X_small_incomplete, X_small_incomplete]\<rparr>)"
  by (simp add: get_mcar_incomplete_data_def mask_random_values_def world_small_def alloc_def
      X_small_shape upt2 uniform_small_def assign_masked_def X_small_def X_small_incomplete_def)

lemma nmar_small:
  "get_nmar_incomplete_data 0 (Some [None, Some (remove_above 4)]) 8675309 (world_small, ())
     = (Inr 2, world_small\<lparr>arrays := [X_small, X_small_incomplete, X_small_incomplete],
                           np_random := 8675309\<rparr>, ())"
  by (simp add: get_nmar_incomplete_data_def world_small_def alloc_def upt2 X_small_shape
      X_small_column remove_above_column X_small_set_column)

lemma mar_small:
  "get_mar_incomplete_data 0 (Some (remove_second_when_first_above 2)) 8675309 (world_small, ())
     = (Inr 2, world_small\<lparr>arrays := [X_small, X_small_incomplete,
                                       \<lparr>ncols = 2, rows = [[Val 1, Val 5], [Val 3, NaN]]\<rparr>],
                           np_random := 8675309\<rparr>, ())"
  by (simp add: get_mar_incomplete_data_def world_small_def X_small_def X_small_incomplete_def
      alloc_def remove_second_when_first_above_def full_like_def set_row_def eval_nat_numeral)

lemma splits_small:
  "get_incomplete_data_splits two_folds 0 1 0 0 2 8675309 world_small
     = (Inr \<lparr>X_train_complete = 2, X_train_incomplete = 4, X_test_complete = 3,
             X_test_incomplete = 5, y_train = 1, y_test = 2\<rparr>,
        world_small\<lparr>arrays := [X_small, X_small_incomplete,
            \<lparr>ncols = 2, rows = [[Val 3, Val 2]]\<rparr>, \<lparr>ncols = 2, rows = [[Val 1, Val 5]]\<rparr>,
            \<lparr>ncols = 2, rows = [[Val 3, Val 2]]\<rparr>, \<lparr>ncols = 2, rows = [[Val 1, NaN]]\<rparr>],
          vectors := [[0, 1], [1], [0]]\<rparr>)"
  by (simp add: get_incomplete_data_splits_def bind_def two_folds_def nth_or_none_def
      index_matrix_def index_vector_def select_rows_def alloc_def alloc_vector_def
      world_small_def X_small_def X_small_incomplete_def)

theorem injectors_and_splitter_leave_inputs_witness:
  "get_mcar_incomplete_data uniform_small 0 (3/10) 8675309 world_small
     = (2, world_small\<lparr>arrays := [X_small, X_small_incomplete, X_small_incomplete]\<rparr>)
   \<and> unchanged world_small
        (world_small\<lparr>arrays := [X_small, X_small_incomplete, X_small_incomplete]\<rparr>)
   \<and> fst (get_nmar_incomplete_data 0 (Some [None, Some (remove_above 4)]) 8675309
            (world_small, ())) = Inr 2
   \<and> unchanged world_small
        (fst (snd (get_nmar_incomplete_data 0 (Some [None, Some (remove_above 4)]) 8675309
                     (world_small, ()))))
   \<and> fst (get_mar_incomplete_data 0 (Some (remove_second_when_first_above 2)) 8675309
            (world_small, ())) = Inr 2
   \<and> unchanged world_small
        (fst (snd (get_mar_incomplete_data 0 (Some (remove_second_when_first_above 2)) 8675309
                     (world_small, ()))))
   \<and> unchanged world_small
        (snd (get_incomplete_data_splits two_folds 0 1 0 0 2 8675309 world_small))
   \<and> fresh world_small
        (snd (get_incomplete_data_splits two_folds 0 1 0 0 2 8675309 world_small)) 5"
  using injectors_and_splitter_leave_inputs
          [where uniform = uniform_small and ?X1.0 = 0 and p = "3/10" and ?s1.0 = 8675309
             and ?w1.0 = world_small
             and ?X2.0 = 0 and fs = "Some [None, Some (remove_above 4)]" and ?s2.0 = 8675309
             and ?w2.0 = world_small and u = "()"
             and ?X3.0 = 0 and f = "Some (remove_second_when_first_above 2)"
             and ?s3.0 = 8675309 and ?w3.0 = world_small and v = "()"
             and cv = two_folds and Xc = 0 and Xi = 1 and y = 0 and fold_n = 0 and k = 2
             and ?s4.0 = 8675309 and ?w4.0 = world_small]
  unfolding mcar_small nmar_small mar_small splits_small
  by simp

subsection \<open>NMAR validation\<close>

text \<open>
  C8: when the number of callables differs from the number of columns,
  \<open>get_nmar_incomplete_data\<close> raises the \<open>ValueError\<close> with the caller's state as it
  was, so that no callable has run, whatever its effects, and with no array
  allocated or written; only the global generator has been seeded.
\<close>

theorem nmar_rejects_wrong_function_count:
  assumes "length fs \<noteq> ncols (arrays w ! X)"
  shows "get_nmar_incomplete_data X (Some fs) random_state (w, u)
           = (Inl (ValueError FunctionCountMismatch), w\<lparr>np_random := random_state\<rparr>, u)"
  using assms by (simp add: get_nmar_incomplete_data_def)

text \<open>With as many callables as columns, each one runs, in the order of the columns.\<close>

lemma nmar_logs_calls:
  "snd (snd (get_nmar_incomplete_data 0 (Some [Some (logging 0), Some (logging 1)]) 8675309
               (world_small, []))) = [0, 1]"
  by (simp add: get_nmar_incomplete_data_def world_small_def alloc_def upt2 X_small_shape
      logging_def column_def set_column_def X_small_def)

theorem nmar_rejects_wrong_function_count_witness:
  "get_nmar_incomplete_data 0 (Some [Some (logging 0)]) 8675309 (world_small, [])
     = (Inl (ValueError FunctionCountMismatch), world_small\<lparr>np_random := 8675309\<rparr>, [])"
proof -
  have "length [Some (logging 0)] \<noteq> ncols (arrays world_small ! 0)"
    by (simp add: world_small_def X_small_def)
  from nmar_rejects_wrong_function_count [OF this] show ?thesis .
qed

subsection \<open>The splitter's row selection\<close>

text \<open>
  C9: the dataset that \<open>get_incomplete_data_splits\<close> returns holds, for the (train,
  test) index arrays of the requested fold, the rows of the complete matrix and the
  rows of the incomplete matrix selected by the same train indices in the same order,
  and likewise by the same test indices.
\<close>

theorem splits_share_row_selection:
  assumes "get_incomplete_data_splits cv Xc Xi y fold_n k seed w = (Inr ds, w')"
    and "Xc < length (arrays w)" and "Xi < length (arrays w)"
  shows "\<exists>splits train test.
           cv k seed (arrays w ! Xc) (vectors w ! y) = Inr splits
         \<and> fold_n < length splits \<and> splits ! fold_n = (train, test)
         \<and> rows (arrays w' ! X_train_complete ds) = map (\<lambda>i. rows (arrays w ! Xc) ! i) train
         \<and> rows (arrays w' ! X_train_incomplete ds) = map (\<lambda>i. rows (arrays w ! Xi) ! i) train
         \<and> rows (arrays w' ! X_test_complete ds) = map (\<lambda>i. rows (arrays w ! Xc) ! i) test
         \<and> rows (arrays w' ! X_test_incomplete ds) = map (\<lambda>i. rows (arrays w ! Xi) ! i) test"
proof -
  from splits_success_form [OF assms] obtain splits train test where
    cv: "cv k seed (arrays w ! Xc) (vectors w ! y) = Inr splits"
      "fold_n < length splits" "splits ! fold_n = (train, test)" and
    arr: "arrays w' = arrays w @
              [(arrays w ! Xc)\<lparr>rows := map (\<lambda>i. rows (arrays w ! Xc) ! i) train\<rparr>,
               (arrays w ! Xc)\<lparr>rows := map (\<lambda>i. rows (arrays w ! Xc) ! i) test\<rparr>,
               (arrays w ! Xi)\<lparr>rows := map (\<lambda>i. rows (arrays w ! Xi) ! i) train\<rparr>,
               (arrays w ! Xi)\<lparr>rows := map (\<lambda>i. rows (arrays w ! Xi) ! i) test\<rparr>]" and
    ds: "ds = \<lparr>X_train_complete = length (arrays w),
                  X_train_incomplete = length (arrays w) + 2,
                  X_test_complete = length (arrays w) + 1,
                  X_test_incomplete = length (arrays w) + 3,
                  y_train = length (vectors w), y_test = length (vectors w) + 1\<rparr>"
    by blast
  have "rows (arrays w' ! X_train_complete ds) = map (\<lambda>i. rows (arrays w ! Xc) ! i) train"
    and "rows (arrays w' ! X_train_incomplete ds) = map (\<lambda>i. rows (arrays w ! Xi) ! i) train"
    and "rows (arrays w' ! X_test_complete ds) = map (\<lambda>i. rows (arrays w ! Xc) ! i) test"
    and "rows (arrays w' ! X_test_incomplete ds) = map (\<lambda>i. rows (arrays w ! Xi) ! i) test"
    by (simp_all add: arr ds nth_append)
  with cv show ?thesis by blast
qed

theorem splits_share_row_selection_witness:
  "rows (arrays (snd (get_incomplete_data_splits two_folds 0 1 0 0 2 8675309 world_small)) ! 2)
     = [rows X_small ! 1]
   \<and> rows (arrays (snd (get_incomplete_data_splits two_folds 0 1 0 0 2 8675309 world_small)) ! 4)
     = [rows X_small_incomplete ! 1]
   \<and> rows (arrays (snd (get_incomplete_data_splits two_folds 0 1 0 0 2 8675309 world_small)) ! 3)
     = [rows X_small ! 0]
   \<and> rows (arrays (snd (get_incomplete_data_splits two_folds 0 1 0 0 2 8675309 world_small)) ! 5)
     = [rows X_small_incomplete ! 0]"
proof -
  have valid: "0 < length (arrays world_small)" "1 < length (arrays world_small)"
    by (simp_all add: world_small_def)
  from splits_share_row_selection [OF splits_small valid]
  have "rows (arrays (snd (get_incomplete_data_splits two_folds 0 1 0 0 2 8675309 world_small)) ! 2)
          = [rows (arrays world_small ! 0) ! 1]
      \<and> rows (arrays (snd (get_incomplete_data_splits two_folds 0 1 0 0 2 8675309 world_small)) ! 4)
          = [rows (arrays world_small ! 1) ! 1]
      \<and> rows (arrays (snd (get_incomplete_data_splits two_folds 0 1 0 0 2 8675309 world_small)) ! 3)
          = [rows (arrays world_small ! 0) ! 0]
      \<and> rows (arrays (snd (get_incomplete_data_splits two_folds 0 1 0 0 2 8675309 world_small)) ! 5)
          = [rows (arrays world_small ! 1) ! 0]"
    unfolding splits_small by (auto simp: two_folds_def)
  moreover have "arrays world_small ! 0 = X_small" "arrays world_small ! 1 = X_small_incomplete"
    by (simp_all add: world_small_def)
  ultimately show ?thesis by simp
qed

text \<open>
  The call returns a dataset whenever the splitter gives the requested fold with
  indices that are rows of the complete matrix, and the incomplete matrix and the
  labels have as many rows.
\<close>

lemma splits_return:
  assumes "cv k seed (arrays w ! Xc) (vectors w ! y) = Inr splits"
    and "fold_n < length splits" and "splits ! fold_n = (train, test)"
    and "list_all (\<lambda>i. i < length (rows (arrays w ! Xc))) train"
    and "list_all (\<lambda>i. i < length (rows (arrays w ! Xc))) test"
    and "length (rows (arrays w ! Xi)) = length (rows (arrays w ! Xc))"
    and "length (vectors w ! y) = length (rows (arrays w ! Xc))"
    and "Xc < length (arrays w)" and "Xi < length (arrays w)" and "y < length (vectors w)"
  shows "\<exists>ds w'. get_incomplete_data_splits cv Xc Xi y fold_n k seed w = (Inr ds, w')"
  using assms
  by (simp add: get_incomplete_data_splits_def bind_def nth_or_none_def index_matrix_def
      index_vector_def select_rows_def alloc_def alloc_vector_def nth_append)

subsection \<open>MCAR reproducibility\<close>



end
